theory Spec2Isabelle
  imports Main "HOL-Library.AList"
begin

section \<open>Python values\<close>

text \<open>
  The library moves JSON-shaped Python values around: command payloads are dicts with
  string keys, responses are whatever the JSON decoder returns. One datatype covers both.
  A Python dict is an association list in insertion order; storing under a key that is
  already present keeps the key's position (\<open>AList.update\<close>), a new key goes last.
  Python's unbounded \<open>int\<close> is \<open>int\<close>. Floating-point numbers are carried
  opaquely (\<open>JFloat\<close> holds the literal's text); no arithmetic is done on them here.
  Numeric arguments of the request builders (intensities, durations, intervals) are
  modelled as Python ints.
\<close>

datatype json =
    JNull
  | JBool bool
  | JInt int
  | JFloat string
  | JStr string
  | JArr "json list"
  | JObj "(string \<times> json) list"

type_synonym pydict = "(string \<times> json) list"

text \<open>A dict built by inserting the given items one after the other into an empty dict.\<close>

definition dict_of_items :: "(string \<times> 'v) list \<Rightarrow> (string \<times> 'v) list" where
  "dict_of_items kvs = foldl (\<lambda>d kv. AList.update (fst kv) (snd kv) d) [] kvs"

text \<open>\<open>d.get(key)\<close>, with Python's \<open>None\<close> for a missing key.\<close>

definition dict_get :: "pydict \<Rightarrow> string \<Rightarrow> json" where
  "dict_get d k = (case map_of d k of Some v \<Rightarrow> v | None \<Rightarrow> JNull)"

text \<open>\<open>isinstance(v, int)\<close>: in Python \<open>bool\<close> is a subclass of \<open>int\<close>.\<close>

fun isinstance_int :: "json \<Rightarrow> bool" where
  "isinstance_int (JInt i) = True"
| "isinstance_int (JBool b) = True"
| "isinstance_int v = False"

text \<open>The integer a Python int object equals (\<open>True == 1\<close>, \<open>False == 0\<close>).\<close>

fun int_value :: "json \<Rightarrow> int" where
  "int_value (JInt i) = i"
| "int_value (JBool b) = (if b then 1 else 0)"
| "int_value v = 0"

subsection \<open>Strings\<close>

text \<open>\<open>sep.join(parts)\<close>\<close>

fun join :: "string \<Rightarrow> string list \<Rightarrow> string" where
  "join sep [] = []"
| "join sep [x] = x"
| "join sep (x # y # ys) = x @ sep @ join sep (y # ys)"

text \<open>\<open>str(n)\<close> for a Python int: decimal digits, a minus sign for negatives.\<close>

definition digit_char :: "nat \<Rightarrow> char" where
  "digit_char d = ''0123456789'' ! d"

fun str_nat :: "nat \<Rightarrow> string" where
  "str_nat n = (if n < 10 then [digit_char n] else str_nat (n div 10) @ [digit_char (n mod 10)])"

declare str_nat.simps [simp del]

definition str_int :: "int \<Rightarrow> string" where
  "str_int i = (if i < 0 then CHR ''-'' # str_nat (nat (- i)) else str_nat (nat i))"

text \<open>
  \<open>c.lower()\<close> on one character. Strings are byte strings here; only the ASCII capitals
  change, every other byte is left as it is.
\<close>

definition lower_char :: "char \<Rightarrow> char" where
  "lower_char c =
     (case map_of (zip ''ABCDEFGHIJKLMNOPQRSTUVWXYZ'' ''abcdefghijklmnopqrstuvwxyz'') c of
        Some l \<Rightarrow> l
      | None \<Rightarrow> c)"

section \<open>The enumerations\<close>

datatype Actions =
    VIBRATE
  | VIBRATE1
  | VIBRATE2
  | VIBRATE3
  | ROTATE
  | PUMP
  | THRUSTING
  | FINGERING
  | SUCTION
  | DEPTH
  | ALL'

text \<open>
  \<open>Actions\<close> is a \<open>StrEnum\<close>: a member is a \<open>str\<close>, equal to and hashing like its
  value. \<open>ALL'\<close> is the member \<open>Actions.ALL\<close>.
\<close>

fun Actions_value :: "Actions \<Rightarrow> string" where
  "Actions_value VIBRATE = ''Vibrate''"
| "Actions_value VIBRATE1 = ''Vibrate1''"
| "Actions_value VIBRATE2 = ''Vibrate2''"
| "Actions_value VIBRATE3 = ''Vibrate3''"
| "Actions_value ROTATE = ''Rotate''"
| "Actions_value PUMP = ''Pump''"
| "Actions_value THRUSTING = ''Thrusting''"
| "Actions_value FINGERING = ''Fingering''"
| "Actions_value SUCTION = ''Suction''"
| "Actions_value DEPTH = ''Depth''"
| "Actions_value ALL' = ''All''"

datatype Presets = PULSE | WAVE | FIREWORKS | EARTHQUAKE

fun Presets_value :: "Presets \<Rightarrow> string" where
  "Presets_value PULSE = ''pulse''"
| "Presets_value WAVE = ''wave''"
| "Presets_value FIREWORKS = ''fireworks''"
| "Presets_value EARTHQUAKE = ''earthquake''"

section \<open>The wrapper object\<close>

text \<open>
  \<open>GameModeWrapper.__init__\<close>. The attributes \<open>error_codes\<close> and
  \<open>_function_range\<close> are set once and never written again, so they are constants;
  \<open>last_command\<close> is the only attribute a call changes.
\<close>

record gateway =
  app_name :: string
  api_endpoint :: string
  ssl_port :: int
  log :: bool
  last_command :: "pydict option"

definition init :: "string \<Rightarrow> string \<Rightarrow> int \<Rightarrow> int \<Rightarrow> bool \<Rightarrow> gateway" where
  "init name local_ip port sslport logging =
     \<lparr> app_name = name,
       api_endpoint = ''http://'' @ local_ip @ '':'' @ str_int port @ ''/command'',
       ssl_port = sslport,
       log = logging,
       last_command = None \<rparr>"

definition error_codes :: "(int \<times> string) list" where
  "error_codes =
     [(200, ''OK''),
      (400, ''Invalid Command''),
      (401, ''Toy Not Found''),
      (402, ''Toy Not Connected''),
      (403, ''Toy Doesn't Support This Command''),
      (404, ''Invalid Parameter''),
      (500, ''HTTP server not started or disabled''),
      (506, ''Server Error. Restart Lovense Connect.'')]"

record range_entry =
  rmin :: int
  rmax :: int

text \<open>The keys are \<open>Actions\<close> members, that is, their string values.\<close>

definition function_range :: "(string \<times> range_entry) list" where
  "function_range =
     [(Actions_value VIBRATE, \<lparr>rmin = 0, rmax = 20\<rparr>),
      (Actions_value VIBRATE1, \<lparr>rmin = 0, rmax = 20\<rparr>),
      (Actions_value VIBRATE2, \<lparr>rmin = 0, rmax = 20\<rparr>),
      (Actions_value VIBRATE3, \<lparr>rmin = 0, rmax = 20\<rparr>),
      (Actions_value ROTATE, \<lparr>rmin = 0, rmax = 20\<rparr>),
      (Actions_value PUMP, \<lparr>rmin = 0, rmax = 3\<rparr>),
      (Actions_value THRUSTING, \<lparr>rmin = 0, rmax = 20\<rparr>),
      (Actions_value FINGERING, \<lparr>rmin = 0, rmax = 20\<rparr>),
      (Actions_value SUCTION, \<lparr>rmin = 0, rmax = 20\<rparr>),
      (Actions_value DEPTH, \<lparr>rmin = 0, rmax = 3\<rparr>),
      (Actions_value ALL', \<lparr>rmin = 0, rmax = 20\<rparr>)]"

section \<open>Command builder\<close>

subsection \<open>\<open>_function_clamp_range\<close>\<close>

text \<open>
  The loop over \<open>actions.items()\<close>, storing each clamped (or untouched) value into the
  fresh dict \<open>clamped_actions\<close>. The keys of \<open>actions\<close> are strings (an \<open>Actions\<close>
  member is its string value).
\<close>

definition clamp_step :: "(string \<times> int) list \<Rightarrow> string \<times> int \<Rightarrow> (string \<times> int) list" where
  "clamp_step clamped_actions item =
     (let action = fst item; v = snd item in
      case map_of function_range action of
        Some r \<Rightarrow>
          (let min_val = rmin r; max_val = rmax r;
               clamped_value = max (min v max_val) min_val
           in AList.update action clamped_value clamped_actions)
      | None \<Rightarrow> AList.update action v clamped_actions)"

definition function_clamp_range :: "(string \<times> int) list \<Rightarrow> (string \<times> int) list" where
  "function_clamp_range actions = foldl clamp_step [] actions"

subsection \<open>\<open>function_request\<close> and \<open>stop\<close>\<close>

text \<open>
  Every public method builds a payload and ends with \<open>return self.send_command(payload)\<close>.
  The payload construction of each method is a function of its own (\<open>..._payload\<close>); the
  method itself is defined after \<open>send_command\<close>.
\<close>

definition function_request_payload ::
  "(string \<times> int) list \<Rightarrow> int \<Rightarrow> int option \<Rightarrow> int option \<Rightarrow> string option \<Rightarrow> bool option \<Rightarrow> pydict"
where
  "function_request_payload actions time loop_on_time loop_off_time toy_id stop_last =
     (let actions' = function_clamp_range actions;
          action = join '','' (map (\<lambda>item. fst item @ '':'' @ str_int (snd item)) actions');
          payload0 = [(''command'', JStr ''Function''),
                      (''action'', JStr action),
                      (''timeSec'', JInt time),
                      (''apiVer'', JInt 1)];
          payload1 = (case loop_on_time of
                        Some t \<Rightarrow> AList.update ''loopRunningSec'' (JInt (max t 1)) payload0
                      | None \<Rightarrow> payload0);
          payload2 = (case loop_off_time of
                        Some t \<Rightarrow> AList.update ''loopPauseSec'' (JInt (max t 1)) payload1
                      | None \<Rightarrow> payload1);
          payload3 = (case toy_id of
                        Some t \<Rightarrow> AList.update ''toy'' (JStr t) payload2
                      | None \<Rightarrow> payload2);
          payload4 = (case stop_last of
                        Some b \<Rightarrow> AList.update ''stopPrevious'' (JInt (if b then 1 else 0)) payload3
                      | None \<Rightarrow> payload3)
      in payload4)"

definition stop_payload :: "string option \<Rightarrow> pydict" where
  "stop_payload toy_id =
     (let payload = [(''command'', JStr ''Function''),
                     (''action'', JStr ''Stop''),
                     (''timeSec'', JInt 0),
                     (''apiVer'', JInt 1)]
      in case toy_id of
           Some t \<Rightarrow> AList.update ''toy'' (JStr t) payload
         | None \<Rightarrow> payload)"

subsection \<open>\<open>_convert_actions_to_letters\<close>\<close>

text \<open>
  An entry of the \<open>actions\<close> list is a plain string, a member of \<open>Actions\<close> (which is
  a string too), or some other object.
\<close>

datatype action_arg = Str string | Member Actions | NotStr

fun isinstance_str :: "action_arg \<Rightarrow> bool" where
  "isinstance_str (Str s) = True"
| "isinstance_str (Member a) = True"
| "isinstance_str NotStr = False"

fun isinstance_Actions :: "action_arg \<Rightarrow> bool" where
  "isinstance_Actions (Member a) = True"
| "isinstance_Actions x = False"

fun str_value :: "action_arg \<Rightarrow> string" where
  "str_value (Str s) = s"
| "str_value (Member a) = Actions_value a"
| "str_value NotStr = []"

definition valid_letters :: "string list" where
  "valid_letters = [''v'', ''r'', ''p'', ''t'', ''f'', ''s'', ''d'']"

text \<open>The \<open>for\<close> loop, with \<open>letter_codes\<close> as accumulator and its early \<open>return ""\<close>.\<close>

fun convert_loop :: "string list \<Rightarrow> action_arg list \<Rightarrow> string" where
  "convert_loop letter_codes [] = (if letter_codes \<noteq> [] then join '','' letter_codes else [])"
| "convert_loop letter_codes (action # rest) =
     (if isinstance_str action \<and> length (str_value action) > 0 then
        (let letter = [lower_char (hd (str_value action))] in
         if letter \<notin> set valid_letters then convert_loop letter_codes rest
         else convert_loop (letter_codes @ [letter]) rest)
      else if isinstance_Actions action then
        convert_loop (letter_codes @ [[lower_char (hd (str_value action))]]) rest
      else [])"

definition convert_actions_to_letters :: "action_arg list \<Rightarrow> string" where
  "convert_actions_to_letters actions = convert_loop [] actions"

subsection \<open>\<open>pattern_request_raw\<close> and \<open>pattern_request\<close>\<close>

definition pattern_request_raw_payload :: "string \<Rightarrow> string \<Rightarrow> int \<Rightarrow> string option \<Rightarrow> pydict" where
  "pattern_request_raw_payload strength rule time toy_id =
     (let payload = [(''command'', JStr ''Pattern''),
                     (''rule'', JStr rule),
                     (''strength'', JStr strength),
                     (''timeSec'', JInt time),
                     (''apiVer'', JInt 2)]
      in case toy_id of
           Some t \<Rightarrow> AList.update ''toy'' (JStr t) payload
         | None \<Rightarrow> payload)"

text \<open>\<open>Actions.ALL in actions\<close>: list membership by \<open>==\<close>, which compares string values.\<close>

definition ALL_in :: "action_arg list \<Rightarrow> bool" where
  "ALL_in actions = list_ex (\<lambda>a. isinstance_str a \<and> str_value a = Actions_value ALL') actions"

text \<open>
  The body of \<open>pattern_request\<close> up to the call of \<open>pattern_request_raw\<close>: the strength
  and rule strings it passes on.
\<close>

definition pattern_request_strength :: "int list \<Rightarrow> string" where
  "pattern_request_strength pattern =
     (let pattern1 = take 50 pattern;
          pattern2 = map (\<lambda>num. min (max 0 num) 20) pattern1
      in join '';'' (map str_int pattern2))"

definition pattern_request_rule :: "action_arg list option \<Rightarrow> int \<Rightarrow> string" where
  "pattern_request_rule actions interval =
     (let actions1 = (case actions of None \<Rightarrow> [Member ALL'] | Some a \<Rightarrow> a);
          interval1 = min (max interval 100) 1000;
          acts = convert_actions_to_letters actions1;
          rule = ''V:1;F:'' @ acts @ '';S:'' @ str_int interval1 @ ''#''
      in if ALL_in actions1 then ''V:1;F:;S:'' @ str_int interval1 @ ''#'' else rule)"

subsection \<open>\<open>preset_request\<close>, \<open>get_toys\<close>, \<open>get_toys_name\<close>\<close>

definition preset_request_payload :: "string \<Rightarrow> int \<Rightarrow> string option \<Rightarrow> pydict" where
  "preset_request_payload name time toy_id =
     (let payload = [(''command'', JStr ''Preset''),
                     (''name'', JStr name),
                     (''timeSec'', JInt time),
                     (''apiVer'', JInt 1)]
      in case toy_id of
           Some t \<Rightarrow> AList.update ''toy'' (JStr t) payload
         | None \<Rightarrow> payload)"

definition get_toys_payload :: pydict where
  "get_toys_payload = [(''command'', JStr ''GetToys'')]"

definition get_toys_name_payload :: pydict where
  "get_toys_name_payload = [(''command'', JStr ''GetToyName'')]"

section \<open>Request/response gateway\<close>

subsection \<open>The JSON decoder\<close>

text \<open>
  \<open>json.loads\<close> and \<open>response.json()\<close> belong to Python's libraries, not to this
  program. The gateway is therefore modelled over an arbitrary decoder
  \<open>loads\<close> (\<open>None\<close>: the text is rejected with a \<open>ValueError\<close>), and the general
  theorems hold for every decoder.

  To run the gateway on concrete responses, \<open>json_loads\<close> below decodes JSON text as
  \<open>json.loads\<close> does: surrounding whitespace, objects (a repeated key keeps its first
  position and its last value), arrays, strings with the one-character escapes,
  \<open>null\<close>, \<open>true\<close>, \<open>false\<close>, integers (at most 4300 digits, CPython's default
  limit), and floating-point literals including \<open>NaN\<close> and \<open>Infinity\<close>, kept as their
  text. Only the escapes for Unicode code points (a backslash followed by u) are not
  covered (they are rejected); no text used below contains one.

  It is a lexer (one pass over the characters) followed by a stack machine (one pass
  over the tokens).
\<close>

datatype token = TLBrace | TRBrace | TLBracket | TRBracket | TColon | TComma | TVal json

datatype lexmode = LIdle | LStr string | LEsc string | LWord string

definition is_ws :: "char \<Rightarrow> bool" where
  "is_ws c = (c = CHR '' '' \<or> c = CHR 0x09 \<or> c = CHR 0x0A \<or> c = CHR 0x0D)"

definition is_digit :: "char \<Rightarrow> bool" where
  "is_digit c = (c \<in> set ''0123456789'')"

definition is_word_char :: "char \<Rightarrow> bool" where
  "is_word_char c =
     (c \<in> set ''0123456789+-.abcdefghijklmnopqrstuvwxyzABCDEFGHIJKLMNOPQRSTUVWXYZ'')"

definition punct :: "char \<Rightarrow> token option" where
  "punct c = map_of [(CHR ''{'', TLBrace), (CHR ''}'', TRBrace), (CHR ''['', TLBracket),
                     (CHR '']'', TRBracket), (CHR '':'', TColon), (CHR '','', TComma)] c"

definition unescape :: "char \<Rightarrow> char option" where
  "unescape c = map_of [(CHR 0x22, CHR 0x22), (CHR 0x5C, CHR 0x5C), (CHR ''/'', CHR ''/''),
                        (CHR ''b'', CHR 0x08), (CHR ''f'', CHR 0x0C), (CHR ''n'', CHR 0x0A),
                        (CHR ''r'', CHR 0x0D), (CHR ''t'', CHR 0x09)] c"

definition digit_value :: "char \<Rightarrow> nat" where
  "digit_value c = (case map_of (zip ''0123456789'' [0, 1, 2, 3, 4, 5, 6, 7, 8, 9]) c of
                      Some d \<Rightarrow> d | None \<Rightarrow> 0)"

definition nat_of_digits :: "string \<Rightarrow> nat" where
  "nat_of_digits ds = foldl (\<lambda>acc c. 10 * acc + digit_value c) 0 ds"

definition all_digits :: "string \<Rightarrow> bool" where
  "all_digits ds = (ds \<noteq> [] \<and> list_all is_digit ds)"

definition is_int_part :: "string \<Rightarrow> bool" where
  "is_int_part ds = (all_digits ds \<and> (ds = ''0'' \<or> hd ds \<noteq> CHR ''0''))"

definition is_exponent :: "string \<Rightarrow> bool" where
  "is_exponent e =
     (case e of
        [] \<Rightarrow> True
      | x # ds \<Rightarrow> (x = CHR ''e'' \<or> x = CHR ''E'') \<and>
          (case ds of
             [] \<Rightarrow> False
           | s # ds' \<Rightarrow> if s = CHR ''+'' \<or> s = CHR ''-'' then all_digits ds' else all_digits ds))"

definition is_fraction :: "string \<Rightarrow> bool" where
  "is_fraction f = (case f of [] \<Rightarrow> True | x # ds \<Rightarrow> x = CHR ''.'' \<and> all_digits ds)"

definition number_value :: "string \<Rightarrow> json option" where
  "number_value w =
     (let neg = (w \<noteq> [] \<and> hd w = CHR ''-'');
          u = (if neg then tl w else w);
          ip = takeWhile is_digit u;
          r = dropWhile is_digit u;
          fp = takeWhile (\<lambda>c. c \<noteq> CHR ''e'' \<and> c \<noteq> CHR ''E'') r;
          ep = dropWhile (\<lambda>c. c \<noteq> CHR ''e'' \<and> c \<noteq> CHR ''E'') r
      in if \<not> (is_int_part ip \<and> is_fraction fp \<and> is_exponent ep) then None
         else if fp = [] \<and> ep = [] then
           (if length ip \<le> 4300
            then Some (JInt (if neg then - int (nat_of_digits ip) else int (nat_of_digits ip)))
            else None)
         else Some (JFloat w))"

definition word_value :: "string \<Rightarrow> json option" where
  "word_value w =
     (if w = ''null'' then Some JNull
      else if w = ''true'' then Some (JBool True)
      else if w = ''false'' then Some (JBool False)
      else if w = ''NaN'' \<or> w = ''Infinity'' \<or> w = ''-Infinity'' then Some (JFloat w)
      else number_value w)"

definition idle_step :: "char \<Rightarrow> (lexmode \<times> token list) option" where
  "idle_step c =
     (if is_ws c then Some (LIdle, [])
      else if c = CHR 0x22 then Some (LStr [], [])
      else if is_word_char c then Some (LWord [c], [])
      else case punct c of Some t \<Rightarrow> Some (LIdle, [t]) | None \<Rightarrow> None)"

fun lex_step :: "lexmode \<Rightarrow> char \<Rightarrow> (lexmode \<times> token list) option" where
  "lex_step LIdle c = idle_step c"
| "lex_step (LStr acc) c =
     (if c = CHR 0x22 then Some (LIdle, [TVal (JStr acc)])
      else if c = CHR 0x5C then Some (LEsc acc, [])
      else if (of_char c :: nat) < 32 then None
      else Some (LStr (acc @ [c]), []))"
| "lex_step (LEsc acc) c =
     (case unescape c of Some x \<Rightarrow> Some (LStr (acc @ [x]), []) | None \<Rightarrow> None)"
| "lex_step (LWord w) c =
     (if is_word_char c then Some (LWord (w @ [c]), [])
      else case word_value w of
             None \<Rightarrow> None
           | Some v \<Rightarrow>
               (case idle_step c of
                  None \<Rightarrow> None
                | Some (m, ts) \<Rightarrow> Some (m, TVal v # ts)))"

fun lex :: "lexmode \<Rightarrow> string \<Rightarrow> token list option" where
  "lex LIdle [] = Some []"
| "lex (LWord w) [] = map_option (\<lambda>v. [TVal v]) (word_value w)"
| "lex (LStr acc) [] = None"
| "lex (LEsc acc) [] = None"
| "lex m (c # cs) =
     (case lex_step m c of
        None \<Rightarrow> None
      | Some (m', ts) \<Rightarrow> map_option (append ts) (lex m' cs))"

datatype frame =
    ArrStart
  | ArrNext "json list"
  | ArrHave "json list"
  | ObjStart
  | ObjNext pydict
  | ObjKey pydict string
  | ObjColon pydict string
  | ObjHave pydict

datatype pstate = Parsing "frame list" | Done json

fun push_value :: "json \<Rightarrow> frame list \<Rightarrow> pstate option" where
  "push_value v [] = Some (Done v)"
| "push_value v (ArrStart # st) = Some (Parsing (ArrHave [v] # st))"
| "push_value v (ArrNext xs # st) = Some (Parsing (ArrHave (xs @ [v]) # st))"
| "push_value v (ObjColon d k # st) = Some (Parsing (ObjHave (AList.update k v d) # st))"
| "push_value (JStr k) (ObjStart # st) = Some (Parsing (ObjKey [] k # st))"
| "push_value (JStr k) (ObjNext d # st) = Some (Parsing (ObjKey d k # st))"
| "push_value v st = None"

fun expects_value :: "frame list \<Rightarrow> bool" where
  "expects_value [] = True"
| "expects_value (ArrStart # st) = True"
| "expects_value (ArrNext xs # st) = True"
| "expects_value (ObjColon d k # st) = True"
| "expects_value st = False"

fun pstep :: "token \<Rightarrow> frame list \<Rightarrow> pstate option" where
  "pstep (TVal v) st = push_value v st"
| "pstep TLBracket st = (if expects_value st then Some (Parsing (ArrStart # st)) else None)"
| "pstep TLBrace st = (if expects_value st then Some (Parsing (ObjStart # st)) else None)"
| "pstep TRBracket (ArrStart # st) = push_value (JArr []) st"
| "pstep TRBracket (ArrHave xs # st) = push_value (JArr xs) st"
| "pstep TRBrace (ObjStart # st) = push_value (JObj []) st"
| "pstep TRBrace (ObjHave d # st) = push_value (JObj d) st"
| "pstep TComma (ArrHave xs # st) = Some (Parsing (ArrNext xs # st))"
| "pstep TComma (ObjHave d # st) = Some (Parsing (ObjNext d # st))"
| "pstep TColon (ObjKey d k # st) = Some (Parsing (ObjColon d k # st))"
| "pstep t st = None"

fun parse_tokens :: "pstate \<Rightarrow> token list \<Rightarrow> json option" where
  "parse_tokens (Done v) [] = Some v"
| "parse_tokens (Parsing st) [] = None"
| "parse_tokens (Done v) (t # ts) = None"
| "parse_tokens (Parsing st) (t # ts) =
     (case pstep t st of Some s \<Rightarrow> parse_tokens s ts | None \<Rightarrow> None)"

definition json_loads :: "string \<Rightarrow> json option" where
  "json_loads s = (case lex LIdle s of Some ts \<Rightarrow> parse_tokens (Parsing []) ts | None \<Rightarrow> None)"

subsection \<open>\<open>_parse_json\<close>\<close>

text \<open>
  A string is handed to the decoder and replaced by what the decoder returns (returned
  as it is); a dict is rebuilt key by key and a list element by element, with the
  function applied to each value; anything else is returned unchanged.
\<close>

type_synonym decoder = "string \<Rightarrow> json option"

fun parse_json :: "decoder \<Rightarrow> json \<Rightarrow> json" where
  "parse_json loads (JStr s) = (case loads s of Some v \<Rightarrow> v | None \<Rightarrow> JStr s)"
| "parse_json loads (JObj kvs) =
     JObj (dict_of_items (map (\<lambda>(k, v). (k, parse_json loads v)) kvs))"
| "parse_json loads (JArr xs) = JArr (map (parse_json loads) xs)"
| "parse_json loads v = v"

subsection \<open>The transport\<close>

text \<open>
  \<open>requests.post\<close> is the external transport. A call either raises or returns a
  response object. Exceptions carry their message (\<open>str(e)\<close>). An exception raised by
  the transport is classified by the first \<open>except\<close> clause that matches it:
  \<open>ConnectionError\<close>, \<open>Timeout\<close>, \<open>RequestException\<close> (any other exception of the
  \<open>requests\<close> hierarchy), or \<open>OtherException\<close> when no clause matches.
\<close>

datatype post_exc =
    ConnectionError string
  | Timeout string
  | RequestException string
  | OtherException string

text \<open>
  The exceptions that can leave \<open>send_command\<close>: one of the transport that no clause
  matched, the one \<open>response.json()\<close> raises on a body that is not JSON, and the one
  \<open>.get\<close> raises on a value that is not a dict. The last two are raised after the
  \<open>try\<close> statement.
\<close>

datatype exc =
    Uncaught string
  | JSONDecodeError string
  | AttributeError string

record response =
  status_code :: int
  body :: string

datatype post_result = Raised post_exc | Returned "response option"

record request =
  url :: string
  json_data :: pydict
  headers :: "(string \<times> string) list"
  timeout :: int

text \<open>
  The truth value of a response object is its \<open>ok\<close> property: false for the status
  codes from 400 to 599.
\<close>

definition response_bool :: "response \<Rightarrow> bool" where
  "response_bool r = (\<not> (400 \<le> status_code r \<and> status_code r < 600))"

subsection \<open>Console output\<close>

text \<open>
  Each \<open>print\<close> call is one line, a list of fragments: literal text, a Python value
  printed with \<open>str\<close>, or the text of \<open>json.dumps(v, indent=4)\<close>. The rendering of
  values is Python's and is not modelled.
\<close>

datatype frag = Lit string | Val json | Dumps json

type_synonym line = "frag list"

subsection \<open>\<open>send_command\<close>\<close>

text \<open>Lines 212 to 219: the message built from the response's \<open>code\<close> field.\<close>

definition response_msg :: "pydict \<Rightarrow> line" where
  "response_msg response_json =
     (let response_code = dict_get response_json ''code'' in
      if isinstance_int response_code then
        (let error_message =
               (case map_of error_codes (int_value response_code) of
                  Some m \<Rightarrow> m
                | None \<Rightarrow> ''Unknown Error'')
         in [Lit ''Response: '', Val response_code, Lit '', '', Lit error_message])
      else [Lit ''Response: Unknown response code '', Val response_code])"

text \<open>
  What follows the two status filters: decode the body, normalise it, classify the code,
  log, return. Nothing here is inside a \<open>try\<close>.
\<close>

definition handle_response ::
  "decoder \<Rightarrow> bool \<Rightarrow> response \<Rightarrow> (exc + json option) \<times> line list"
where
  "handle_response loads logging r =
     (case loads (body r) of
        None \<Rightarrow> (Inl (JSONDecodeError ''Expecting value''), [])
      | Some decoded \<Rightarrow>
          (case parse_json loads decoded of
             JObj response_json \<Rightarrow>
               (Inr (Some (JObj response_json)),
                if logging
                then [response_msg response_json, [Dumps (JObj response_json)], []]
                else [])
           | other \<Rightarrow> (Inl (AttributeError ''object has no attribute get''), [])))"

text \<open>
  The result of a call: what the caller gets (\<open>Inl\<close>: an exception propagates;
  \<open>Inr None\<close>: the empty result; \<open>Inr (Some v)\<close>: the normalised response), the lines
  printed, and the wrapper object afterwards.
\<close>

type_synonym call_result = "(exc + json option) \<times> line list \<times> gateway"

type_synonym transport = "request \<Rightarrow> post_result"

definition send_command ::
  "decoder \<Rightarrow> transport \<Rightarrow> gateway \<Rightarrow> pydict \<Rightarrow> int \<Rightarrow> call_result"
where
  "send_command loads post self command_data tmo =
     (let hdrs = [(''X-platform'', app_name self)];
          out0 = (if log self then [[Val (JObj command_data)]] else []);
          self' = self\<lparr>last_command := Some command_data\<rparr>
      in case post \<lparr>url = api_endpoint self, json_data = command_data,
                       headers = hdrs, timeout = tmo\<rparr> of
           Raised (ConnectionError e) \<Rightarrow>
             (Inr None,
              out0 @ [[Lit ''Error: Failed to establish a new connection'']]
                   @ (if log self then [[Lit e]] else []),
              self')
         | Raised (Timeout e) \<Rightarrow>
             (Inr None,
              out0 @ [[Lit ''Error: Request timed out'']]
                   @ (if log self then [[Lit e]] else []),
              self')
         | Raised (RequestException e) \<Rightarrow>
             (let err_message =
                    (if \<not> log self then take 50 e @ ''... Enable logging for more info''
                     else e)
              in (Inr None,
                  out0 @ [[Lit (''Error: An error occurred in the request: '' @ err_message)]],
                  self'))
         | Raised (OtherException e) \<Rightarrow> (Inl (Uncaught e), out0, self')
         | Returned resp \<Rightarrow>
             (case resp of
                None \<Rightarrow>
                  (Inr None, out0 @ [[Lit ''Error: Received no response from server.'']], self')
              | Some r \<Rightarrow>
                  if \<not> response_bool r then
                    (Inr None, out0 @ [[Lit ''Error: Received no response from server.'']], self')
                  else if status_code r \<noteq> 200 then
                    (Inr None,
                     out0 @ [[Lit (''Error: Received HTTP status code '' @ str_int (status_code r)
                                   @ '' from the server.'')]],
                     self')
                  else
                    (let (res, out1) = handle_response loads (log self) r
                     in (res, out0 @ out1, self'))))"

subsection \<open>The public methods\<close>

text \<open>
  Each method ends with \<open>return self.send_command(payload)\<close>, with the default timeout
  of 10 seconds; \<open>pattern_request\<close> ends with a call of \<open>pattern_request_raw\<close>.
\<close>

definition get_toys :: "decoder \<Rightarrow> transport \<Rightarrow> gateway \<Rightarrow> call_result" where
  "get_toys loads post self = send_command loads post self get_toys_payload 10"

definition get_toys_name :: "decoder \<Rightarrow> transport \<Rightarrow> gateway \<Rightarrow> call_result" where
  "get_toys_name loads post self = send_command loads post self get_toys_name_payload 10"

definition function_request ::
  "decoder \<Rightarrow> transport \<Rightarrow> gateway \<Rightarrow> (string \<times> int) list \<Rightarrow> int \<Rightarrow> int option \<Rightarrow> int option
     \<Rightarrow> string option \<Rightarrow> bool option \<Rightarrow> call_result"
where
  "function_request loads post self actions time loop_on_time loop_off_time toy_id stop_last =
     send_command loads post self
       (function_request_payload actions time loop_on_time loop_off_time toy_id stop_last) 10"

definition stop :: "decoder \<Rightarrow> transport \<Rightarrow> gateway \<Rightarrow> string option \<Rightarrow> call_result" where
  "stop loads post self toy_id = send_command loads post self (stop_payload toy_id) 10"

definition pattern_request_raw ::
  "decoder \<Rightarrow> transport \<Rightarrow> gateway \<Rightarrow> string \<Rightarrow> string \<Rightarrow> int \<Rightarrow> string option \<Rightarrow> call_result"
where
  "pattern_request_raw loads post self strength rule time toy_id =
     send_command loads post self (pattern_request_raw_payload strength rule time toy_id) 10"

definition pattern_request ::
  "decoder \<Rightarrow> transport \<Rightarrow> gateway \<Rightarrow> int list \<Rightarrow> action_arg list option \<Rightarrow> int \<Rightarrow> int
     \<Rightarrow> string option \<Rightarrow> call_result"
where
  "pattern_request loads post self pattern actions interval time toy_id =
     pattern_request_raw loads post self (pattern_request_strength pattern)
       (pattern_request_rule actions interval) time toy_id"

definition preset_request ::
  "decoder \<Rightarrow> transport \<Rightarrow> gateway \<Rightarrow> string \<Rightarrow> int \<Rightarrow> string option \<Rightarrow> call_result"
where
  "preset_request loads post self name time toy_id =
     send_command loads post self (preset_request_payload name time toy_id) 10"

subsection \<open>Sessions\<close>

text \<open>A call of one of the public methods, with its arguments.\<close>

datatype call =
    SendCommand pydict int
  | GetToys
  | GetToysName
  | FunctionRequest "(string \<times> int) list" int "int option" "int option" "string option"
      "bool option"
  | Stop "string option"
  | PatternRequestRaw string string int "string option"
  | PatternRequest "int list" "action_arg list option" int int "string option"
  | PresetRequest string int "string option"

fun perform :: "decoder \<Rightarrow> transport \<Rightarrow> gateway \<Rightarrow> call \<Rightarrow> call_result" where
  "perform loads post self (SendCommand command_data tmo) =
     send_command loads post self command_data tmo"
| "perform loads post self GetToys = get_toys loads post self"
| "perform loads post self GetToysName = get_toys_name loads post self"
| "perform loads post self
       (FunctionRequest actions time loop_on_time loop_off_time toy_id stop_last) =
     function_request loads post self actions time loop_on_time loop_off_time toy_id stop_last"
| "perform loads post self (Stop toy_id) = stop loads post self toy_id"
| "perform loads post self (PatternRequestRaw strength rule time toy_id) =
     pattern_request_raw loads post self strength rule time toy_id"
| "perform loads post self (PatternRequest pattern actions interval time toy_id) =
     pattern_request loads post self pattern actions interval time toy_id"
| "perform loads post self (PresetRequest name time toy_id) =
     preset_request loads post self name time toy_id"

text \<open>
  A session: calls made one after the other on the same wrapper object, each paired with
  the behaviour of the transport at the time of the call. The session goes on after a
  call that raised (the caller caught the exception).
\<close>

fun run :: "decoder \<Rightarrow> gateway \<Rightarrow> (transport \<times> call) list \<Rightarrow> gateway" where
  "run loads self [] = self"
| "run loads self (pc # rest) =
     run loads (snd (snd (perform loads (fst pc) self (snd pc)))) rest"

section \<open>Vocabulary of the properties\<close>

text \<open>The request that \<open>send_command\<close> hands to the transport.\<close>

definition the_request :: "gateway \<Rightarrow> pydict \<Rightarrow> int \<Rightarrow> request" where
  "the_request self command_data tmo =
     \<lparr>url = api_endpoint self, json_data = command_data,
      headers = [(''X-platform'', app_name self)], timeout = tmo\<rparr>"

text \<open>
  The transport failures: a connection error, a timeout, any other exception of the
  \<open>requests\<close> hierarchy, no response object, or a response whose HTTP status is not 200.
\<close>

fun transport_failure :: "post_result \<Rightarrow> bool" where
  "transport_failure (Raised (ConnectionError e)) = True"
| "transport_failure (Raised (Timeout e)) = True"
| "transport_failure (Raised (RequestException e)) = True"
| "transport_failure (Raised (OtherException e)) = False"
| "transport_failure (Returned None) = True"
| "transport_failure (Returned (Some r)) = (status_code r \<noteq> 200)"

text \<open>The payload that a call attempts to send, and the timeout it uses.\<close>

fun payload_of :: "call \<Rightarrow> pydict" where
  "payload_of (SendCommand command_data tmo) = command_data"
| "payload_of GetToys = get_toys_payload"
| "payload_of GetToysName = get_toys_name_payload"
| "payload_of (FunctionRequest actions time loop_on_time loop_off_time toy_id stop_last) =
     function_request_payload actions time loop_on_time loop_off_time toy_id stop_last"
| "payload_of (Stop toy_id) = stop_payload toy_id"
| "payload_of (PatternRequestRaw strength rule time toy_id) =
     pattern_request_raw_payload strength rule time toy_id"
| "payload_of (PatternRequest pattern actions interval time toy_id) =
     pattern_request_raw_payload (pattern_request_strength pattern)
       (pattern_request_rule actions interval) time toy_id"
| "payload_of (PresetRequest name time toy_id) = preset_request_payload name time toy_id"

fun timeout_of :: "call \<Rightarrow> int" where
  "timeout_of (SendCommand command_data tmo) = tmo"
| "timeout_of c = 10"

definition is_dict :: "json \<Rightarrow> bool" where
  "is_dict v = (case v of JObj d \<Rightarrow> True | _ \<Rightarrow> False)"

text \<open>
  The normalisation as the specification words it, for comparison with \<open>parse_json\<close>:
  the structure that a string decodes to is walked again. The first argument bounds the
  depth of the walk (the specification suggests 32); at depth 0 a value is left as it is.
\<close>

fun normalize_spec :: "nat \<Rightarrow> decoder \<Rightarrow> json \<Rightarrow> json" where
  "normalize_spec 0 loads v = v"
| "normalize_spec (Suc n) loads (JStr s) =
     (case loads s of Some v \<Rightarrow> normalize_spec n loads v | None \<Rightarrow> JStr s)"
| "normalize_spec (Suc n) loads (JObj kvs) =
     JObj (dict_of_items (map (\<lambda>(k, v). (k, normalize_spec n loads v)) kvs))"
| "normalize_spec (Suc n) loads (JArr xs) = JArr (map (normalize_spec n loads) xs)"
| "normalize_spec (Suc n) loads v = v"

text \<open>
  Reading a strength string back: \<open>s.split(sep)\<close> for a one-character separator, and
  the number a string of decimal digits denotes (\<open>nat_of_digits\<close>, above).
\<close>

fun split_on :: "char \<Rightarrow> string \<Rightarrow> string list" where
  "split_on sep [] = [[]]"
| "split_on sep (c # cs) =
     (if c = sep then [] # split_on sep cs
      else (case split_on sep cs of p # ps \<Rightarrow> (c # p) # ps | [] \<Rightarrow> [[c]]))"

section \<open>Properties of the gateway\<close>

lemma send_command_200:
  assumes "post (the_request self command_data tmo) = Returned (Some r)"
    and "status_code r = 200"
  shows "send_command loads post self command_data tmo =
     (fst (handle_response loads (log self) r),
      (if log self then [[Val (JObj command_data)]] else [])
        @ snd (handle_response loads (log self) r),
      self\<lparr>last_command := Some command_data\<rparr>)"
  using assms
  by (simp add: send_command_def the_request_def Let_def response_bool_def split: prod.splits)

lemma perform_send:
  "perform loads post self c = send_command loads post self (payload_of c) (timeout_of c)"
  by (cases c)
     (simp_all add: get_toys_def get_toys_name_def function_request_def stop_def
        pattern_request_raw_def pattern_request_def preset_request_def)

lemma last_command_send_command:
  "last_command (snd (snd (send_command loads post self command_data tmo))) = Some command_data"
proof (cases "post \<lparr>url = api_endpoint self, json_data = command_data,
      headers = [(''X-platform'', app_name self)], timeout = tmo\<rparr>")
  case (Raised e)
  then show ?thesis
    by (cases e) (simp_all add: send_command_def Let_def)
next
  case (Returned resp)
  then show ?thesis
    by (cases resp) (simp_all add: send_command_def Let_def split: prod.splits)
qed

lemma last_command_run_snoc:
  "last_command (run loads self (calls @ [pc])) = Some (payload_of (snd pc))"
  by (induction calls arbitrary: self) (simp_all add: perform_send last_command_send_command)

lemma json_loads_not_json: \<open>json_loads ''<html>'' = None\<close>
  by code_simp

lemma json_loads_array: \<open>json_loads ''[1, 2]'' = Some (JArr [JInt 1, JInt 2])\<close>
  by code_simp

lemma json_loads_toy_not_connected:
  \<open>json_loads ''{"code": 402, "type": "OK"}''
     = Some (JObj [(''code'', JInt 402), (''type'', JStr ''OK'')])\<close>
  by code_simp

lemma parse_json_toy_not_connected:
  \<open>parse_json json_loads (JObj [(''code'', JInt 402), (''type'', JStr ''OK'')])
     = JObj [(''code'', JInt 402), (''type'', JStr ''OK'')]\<close>
  by code_simp

text \<open>
  C1. Whatever the payload, when the transport fails (connection error, timeout, any
  other request exception, no response object, or an HTTP status other than 200),
  \<open>send_command\<close> returns the empty result \<open>None\<close> and no exception leaves it.
\<close>

theorem send_command_failure_empty:
  assumes "transport_failure (post (the_request self command_data tmo))"
  shows "fst (send_command loads post self command_data tmo) = Inr None"
proof (cases "post (the_request self command_data tmo)")
  case (Raised e)
  with assms show ?thesis
    by (cases e) (simp_all add: send_command_def the_request_def Let_def)
next
  case (Returned resp)
  show ?thesis
  proof (cases resp)
    case None
    with Returned show ?thesis
      by (simp add: send_command_def the_request_def Let_def)
  next
    case (Some r)
    with Returned assms have "status_code r \<noteq> 200" by simp
    with Returned Some show ?thesis
      by (simp add: send_command_def the_request_def Let_def)
  qed
qed

theorem send_command_failure_empty_witness:
  "fst (send_command json_loads (\<lambda>req. Raised (ConnectionError ''refused''))
         (init ''My Cool App'' ''10.0.0.69'' 20010 30010 False) get_toys_payload 10) = Inr None
   \<and> fst (send_command json_loads (\<lambda>req. Raised (Timeout ''timed out''))
         (init ''My Cool App'' ''10.0.0.69'' 20010 30010 True) get_toys_payload 10) = Inr None
   \<and> fst (send_command json_loads (\<lambda>req. Raised (RequestException ''invalid URL''))
         (init ''My Cool App'' ''10.0.0.69'' 20010 30010 False) (stop_payload None) 10) = Inr None
   \<and> fst (send_command json_loads (\<lambda>req. Returned None)
         (init ''My Cool App'' ''10.0.0.69'' 20010 30010 False) get_toys_payload 10) = Inr None
   \<and> fst (send_command json_loads
         (\<lambda>req. Returned (Some \<lparr>status_code = 404, body = ''Not Found''\<rparr>))
         (init ''My Cool App'' ''10.0.0.69'' 20010 30010 False) get_toys_payload 10) = Inr None
   \<and> fst (send_command json_loads
         (\<lambda>req. Returned (Some \<lparr>status_code = 204, body = []\<rparr>))
         (init ''My Cool App'' ''10.0.0.69'' 20010 30010 False) get_toys_payload 10) = Inr None"
  by (intro conjI send_command_failure_empty) simp_all

text \<open>
  C9. After every call through the gateway, whatever the transport did and whether or
  not an exception left the call, \<open>last_command\<close> holds the payload of that call: this
  holds for \<open>send_command\<close>, for every public method, and after each call of a session.
  A wrapper object that has made no call has nothing cached.
\<close>

theorem last_command_cache:
  "last_command (snd (snd (send_command loads post self command_data tmo))) = Some command_data
   \<and> last_command (snd (snd (perform loads post self c))) = Some (payload_of c)
   \<and> (\<forall>n < length calls.
         last_command (run loads self (take (Suc n) calls)) = Some (payload_of (snd (calls ! n))))
   \<and> last_command (init name local_ip port sslport logging) = None"
proof -
  have "last_command (run loads self (take (Suc n) calls)) = Some (payload_of (snd (calls ! n)))"
    if "n < length calls" for n
  proof -
    from that have "take (Suc n) calls = take n calls @ [calls ! n]"
      by (rule take_Suc_conv_app_nth)
    then show ?thesis by (simp add: last_command_run_snoc)
  qed
  then show ?thesis
    by (simp add: last_command_send_command perform_send init_def)
qed

theorem last_command_cache_witness:
  "last_command (run json_loads (init ''My Cool App'' ''10.0.0.69'' 20010 30010 False)
       (take (Suc 1)
         [(\<lambda>req. Returned (Some \<lparr>status_code = 200, body = ''[1, 2]''\<rparr>), GetToys),
          (\<lambda>req. Raised (Timeout ''timed out''), Stop (Some ''f0a1'')),
          (\<lambda>req. Raised (OtherException ''KeyboardInterrupt''), GetToysName)]))
     = Some [(''command'', JStr ''Function''), (''action'', JStr ''Stop''),
             (''timeSec'', JInt 0), (''apiVer'', JInt 1), (''toy'', JStr ''f0a1'')]"
proof -
  let ?calls =
        "[(\<lambda>req. Returned (Some \<lparr>status_code = 200, body = ''[1, 2]''\<rparr>), GetToys),
          (\<lambda>req::request. Raised (Timeout ''timed out''), Stop (Some ''f0a1'')),
          (\<lambda>req. Raised (OtherException ''KeyboardInterrupt''), GetToysName)]"
  have h: "(1::nat) < length ?calls"
    by simp
  have p: "payload_of (snd (?calls ! 1))
     = [(''command'', JStr ''Function''), (''action'', JStr ''Stop''),
        (''timeSec'', JInt 0), (''apiVer'', JInt 1), (''toy'', JStr ''f0a1'')]"
    by (simp add: stop_payload_def)
  from last_command_cache
    [where loads = json_loads
       and self = "init ''My Cool App'' ''10.0.0.69'' 20010 30010 False"
       and calls = ?calls,
     THEN conjunct2, THEN conjunct2, THEN conjunct1, rule_format, OF h]
  show ?thesis
    by (simp only: p)
qed

text \<open>
  C10. A response with HTTP status 200 can make \<open>send_command\<close> raise: when the body is
  not JSON, \<open>response.json()\<close> raises, and when the normalised body is not a dict (an
  array, a number, a string, ...), the \<open>.get\<close> of the status code raises. Both happen
  after the \<open>try\<close> statement, so the exception reaches the caller.
\<close>

theorem send_command_raises_on_bad_body:
  assumes "post (the_request self command_data tmo) = Returned (Some r)"
    and "status_code r = 200"
    and "case loads (body r) of None \<Rightarrow> True | Some v \<Rightarrow> \<not> is_dict (parse_json loads v)"
  shows "\<exists>e. fst (send_command loads post self command_data tmo) = Inl e
             \<and> (e = JSONDecodeError ''Expecting value'' \<and> loads (body r) = None
                \<or> e = AttributeError ''object has no attribute get'' \<and> loads (body r) \<noteq> None)"
proof (cases "loads (body r)")
  note sc = send_command_200[of post self command_data tmo r loads, OF assms(1,2)]
  case None
  then show ?thesis
    by (simp add: sc handle_response_def)
next
  note sc = send_command_200[of post self command_data tmo r loads, OF assms(1,2)]
  case (Some v)
  with assms(3) have "\<not> is_dict (parse_json loads v)" by simp
  then show ?thesis using Some
    by (cases "parse_json loads v") (simp_all add: sc handle_response_def is_dict_def)
qed

theorem send_command_raises_on_bad_body_witness:
  \<open>(\<exists>e. fst (send_command json_loads
              (\<lambda>req. Returned (Some \<lparr>status_code = 200, body = ''[1, 2]''\<rparr>))
              (init ''My Cool App'' ''10.0.0.69'' 20010 30010 False) get_toys_payload 10) = Inl e
         \<and> (e = JSONDecodeError ''Expecting value''
               \<and> json_loads (body \<lparr>status_code = 200, body = ''[1, 2]''\<rparr>) = None
            \<or> e = AttributeError ''object has no attribute get''
               \<and> json_loads (body \<lparr>status_code = 200, body = ''[1, 2]''\<rparr>) \<noteq> None))
   \<and> (\<exists>e. fst (send_command json_loads
              (\<lambda>req. Returned (Some \<lparr>status_code = 200, body = ''<html>''\<rparr>))
              (init ''My Cool App'' ''10.0.0.69'' 20010 30010 False) get_toys_payload 10) = Inl e
         \<and> (e = JSONDecodeError ''Expecting value''
               \<and> json_loads (body \<lparr>status_code = 200, body = ''<html>''\<rparr>) = None
            \<or> e = AttributeError ''object has no attribute get''
               \<and> json_loads (body \<lparr>status_code = 200, body = ''<html>''\<rparr>) \<noteq> None))\<close>
  by (intro conjI send_command_raises_on_bad_body)
     (simp_all add: json_loads_array json_loads_not_json is_dict_def)

text \<open>
  C8, as the code has it. When the transport returns status 200 and the normalised body
  is a dict, \<open>send_command\<close> returns that dict whatever its \<open>code\<close> field holds, and
  (only with logging on) prints the classification of the code: a Python int \<open>c\<close> gives
  the description tabulated for \<open>c\<close>, or \<open>Unknown Error\<close> when the table has none; a
  JSON \<open>true\<close>/\<open>false\<close> is a Python int too and gives \<open>Unknown Error\<close>; a missing
  code or any other value gives \<open>Unknown response code\<close>. The table maps 402 to
  \<open>Toy Not Connected\<close>, 506 to \<open>Server Error. Restart Lovense Connect.\<close> and has no
  entry for 999.
\<close>

theorem send_command_status_lookup:
  assumes "post (the_request self command_data tmo) = Returned (Some r)"
    and "status_code r = 200"
    and "loads (body r) = Some decoded"
    and "parse_json loads decoded = JObj d"
  shows "send_command loads post self command_data tmo =
           (Inr (Some (JObj d)),
            (if log self
             then [[Val (JObj command_data)], response_msg d, [Dumps (JObj d)], []]
             else []),
            self\<lparr>last_command := Some command_data\<rparr>)
         \<and> response_msg d =
           (case map_of d ''code'' of
              Some (JInt c) \<Rightarrow>
                [Lit ''Response: '', Val (JInt c), Lit '', '',
                 Lit (case map_of error_codes c of Some m \<Rightarrow> m | None \<Rightarrow> ''Unknown Error'')]
            | Some (JBool b) \<Rightarrow>
                [Lit ''Response: '', Val (JBool b), Lit '', '', Lit ''Unknown Error'']
            | Some v \<Rightarrow> [Lit ''Response: Unknown response code '', Val v]
            | None \<Rightarrow> [Lit ''Response: Unknown response code '', Val JNull])
         \<and> map_of error_codes 402 = Some ''Toy Not Connected''
         \<and> map_of error_codes 506 = Some ''Server Error. Restart Lovense Connect.''
         \<and> map_of error_codes 999 = None"
proof -
  note sc = send_command_200[of post self command_data tmo r loads, OF assms(1,2)]
  have "send_command loads post self command_data tmo =
           (Inr (Some (JObj d)),
            (if log self
             then [[Val (JObj command_data)], response_msg d, [Dumps (JObj d)], []]
             else []),
            self\<lparr>last_command := Some command_data\<rparr>)"
    by (simp add: sc handle_response_def assms(3,4))
  moreover have "response_msg d =
           (case map_of d ''code'' of
              Some (JInt c) \<Rightarrow>
                [Lit ''Response: '', Val (JInt c), Lit '', '',
                 Lit (case map_of error_codes c of Some m \<Rightarrow> m | None \<Rightarrow> ''Unknown Error'')]
            | Some (JBool b) \<Rightarrow>
                [Lit ''Response: '', Val (JBool b), Lit '', '', Lit ''Unknown Error'']
            | Some v \<Rightarrow> [Lit ''Response: Unknown response code '', Val v]
            | None \<Rightarrow> [Lit ''Response: Unknown response code '', Val JNull])"
    by (simp add: response_msg_def dict_get_def error_codes_def Let_def
             split: option.splits json.splits)
  moreover have "map_of error_codes 402 = Some ''Toy Not Connected''"
    "map_of error_codes 506 = Some ''Server Error. Restart Lovense Connect.''"
    "map_of error_codes 999 = None"
    by (simp_all add: error_codes_def)
  ultimately show ?thesis by simp
qed

theorem send_command_status_lookup_witness:
  \<open>fst (send_command json_loads
          (\<lambda>req. Returned (Some \<lparr>status_code = 200, body = ''{"code": 402, "type": "OK"}''\<rparr>))
          (init ''My Cool App'' ''10.0.0.69'' 20010 30010 True) get_toys_payload 10)
     = Inr (Some (JObj [(''code'', JInt 402), (''type'', JStr ''OK'')]))
   \<and> fst (snd (send_command json_loads
          (\<lambda>req. Returned (Some \<lparr>status_code = 200, body = ''{"code": 402, "type": "OK"}''\<rparr>))
          (init ''My Cool App'' ''10.0.0.69'' 20010 30010 True) get_toys_payload 10))
     = [[Val (JObj [(''command'', JStr ''GetToys'')])],
        [Lit ''Response: '', Val (JInt 402), Lit '', '', Lit ''Toy Not Connected''],
        [Dumps (JObj [(''code'', JInt 402), (''type'', JStr ''OK'')])],
        []]\<close>
proof -
  let ?r = \<open>\<lparr>status_code = 200, body = ''{"code": 402, "type": "OK"}''\<rparr>\<close>
  let ?self = "init ''My Cool App'' ''10.0.0.69'' 20010 30010 True"
  have h1: "(\<lambda>req. Returned (Some ?r)) (the_request ?self get_toys_payload 10)
              = Returned (Some ?r)"
    by simp
  have h2: "status_code ?r = 200"
    by simp
  have h3: "json_loads (body ?r) = Some (JObj [(''code'', JInt 402), (''type'', JStr ''OK'')])"
    by (simp add: json_loads_toy_not_connected)
  note T = send_command_status_lookup
    [of "\<lambda>req. Returned (Some ?r)" ?self get_toys_payload 10 ?r json_loads,
     OF h1 h2 h3 parse_json_toy_not_connected]
  have l: "log ?self"
    by (simp add: init_def)
  from T l show ?thesis
    by (simp add: get_toys_payload_def error_codes_def)
qed

text \<open>
  The claim C8 as worded names another description for 506 (\<open>Server Error\<close>, a dash,
  \<open>restart required\<close>); the message built for the code 506 is not that one.
\<close>

theorem status_506_counterexample:
  "response_msg [(''code'', JInt 506)]
     \<noteq> [Lit ''Response: '', Val (JInt 506), Lit '', '',
         Lit (''Server Error '' @ [CHR 0xE2, CHR 0x80, CHR 0x94] @ '' restart required'')]"
  by (simp add: response_msg_def dict_get_def error_codes_def)

section \<open>Properties of the command builder\<close>

lemma update_fresh: "k \<notin> fst ` set d \<Longrightarrow> AList.update k v d = d @ [(k, v)]"
  by (induction d) auto

lemma clamp_step_fresh:
  "fst item \<notin> fst ` set acc \<Longrightarrow>
   clamp_step acc item = acc @ [(fst item, case map_of function_range (fst item) of
        Some r \<Rightarrow> max (min (snd item) (rmax r)) (rmin r) | None \<Rightarrow> snd item)]"
  by (simp add: clamp_step_def Let_def update_fresh split: option.splits)

lemma foldl_clamp_step:
  "distinct (map fst actions) \<Longrightarrow> fst ` set acc \<inter> fst ` set actions = {} \<Longrightarrow>
   foldl clamp_step acc actions =
   acc @ map (\<lambda>item. (fst item, case map_of function_range (fst item) of
        Some r \<Rightarrow> max (min (snd item) (rmax r)) (rmin r) | None \<Rightarrow> snd item)) actions"
proof (induction actions arbitrary: acc)
  case Nil
  then show ?case by simp
next
  case (Cons item actions)
  have fresh: "fst item \<notin> fst ` set acc" using Cons.prems(2) by auto
  let ?acc' = "clamp_step acc item"
  have acc': "?acc' = acc @ [(fst item, case map_of function_range (fst item) of
        Some r \<Rightarrow> max (min (snd item) (rmax r)) (rmin r) | None \<Rightarrow> snd item)]"
    using fresh by (rule clamp_step_fresh)
  have "fst ` set ?acc' \<inter> fst ` set actions = {}"
    using Cons.prems by (auto simp: acc')
  moreover have "distinct (map fst actions)" using Cons.prems(1) by simp
  ultimately have "foldl clamp_step ?acc' actions = ?acc' @ map (\<lambda>item. (fst item, case map_of function_range (fst item) of
        Some r \<Rightarrow> max (min (snd item) (rmax r)) (rmin r) | None \<Rightarrow> snd item)) actions"
    by (rule Cons.IH[rotated])
  then show ?case by (simp add: acc')
qed

lemma range_table:
  "map_of function_range (Actions_value a)
     = Some \<lparr>rmin = 0, rmax = (if a = PUMP \<or> a = DEPTH then 3 else 20)\<rparr>"
  by (cases a) (simp_all add: function_range_def)

lemma range_table_dom: "dom (map_of function_range) = range Actions_value"
proof
  show "dom (map_of function_range) \<subseteq> range Actions_value"
  proof
    fix k assume "k \<in> dom (map_of function_range)"
    then have "k \<in> set (map fst function_range)"
      by (simp add: dom_map_of_conv_image_fst)
    also have "map fst function_range =
        map Actions_value [VIBRATE, VIBRATE1, VIBRATE2, VIBRATE3, ROTATE, PUMP, THRUSTING,
                           FINGERING, SUCTION, DEPTH, ALL']"
      by (simp add: function_range_def)
    finally show "k \<in> range Actions_value"
      unfolding set_map by blast
  qed
  show "range Actions_value \<subseteq> dom (map_of function_range)"
    using range_table by (auto simp: dom_def)
qed

text \<open>
  C2. For a dict of intensities (its keys are distinct), \<open>_function_clamp_range\<close>
  returns a dict with the same keys in the same order; the value of a key found in the
  range table is \<open>max(min(v, max), min)\<close> for its range, the value of any other key is
  unchanged. The table holds exactly the \<open>Actions\<close> members, with the range 0 to 3 for
  \<open>Pump\<close> and \<open>Depth\<close> and 0 to 20 for every other member.
\<close>

theorem function_clamp_range_spec:
  assumes "distinct (map fst actions)"
  shows "function_clamp_range actions =
           map (\<lambda>item. (fst item,
                  case map_of function_range (fst item) of
                    Some r \<Rightarrow> max (min (snd item) (rmax r)) (rmin r)
                  | None \<Rightarrow> snd item)) actions
         \<and> map fst (function_clamp_range actions) = map fst actions
         \<and> map_of function_range (Actions_value a)
             = Some \<lparr>rmin = 0, rmax = (if a = PUMP \<or> a = DEPTH then 3 else 20)\<rparr>
         \<and> dom (map_of function_range) = range Actions_value"
proof -
  have eq: "function_clamp_range actions =
           map (\<lambda>item. (fst item,
                  case map_of function_range (fst item) of
                    Some r \<Rightarrow> max (min (snd item) (rmax r)) (rmin r)
                  | None \<Rightarrow> snd item)) actions"
    unfolding function_clamp_range_def
    using foldl_clamp_step[OF assms, of "[]"] by simp
  have "map fst (function_clamp_range actions) = map fst actions"
    unfolding eq by (simp add: o_def)
  with eq range_table range_table_dom show ?thesis by simp
qed

theorem function_clamp_range_spec_witness:
  "function_clamp_range [(''Vibrate'', 25), (''Pump'', 7), (''Depth'', - 2), (''Spin'', 99), (''Rotate'', 13)]
     = [(''Vibrate'', 20), (''Pump'', 3), (''Depth'', 0), (''Spin'', 99), (''Rotate'', 13)]"
proof -
  have d: "distinct (map fst [(''Vibrate'', 25::int), (''Pump'', 7), (''Depth'', - 2), (''Spin'', 99), (''Rotate'', 13)])"
    by simp
  from function_clamp_range_spec[OF d, THEN conjunct1]
  show ?thesis by (simp add: function_range_def)
qed

subsection \<open>Decimal strings and separators\<close>

lemma split_on_nonempty: "split_on sep s \<noteq> []"
  by (induction s) (auto split: list.splits)

lemma split_on_no_sep: "sep \<notin> set x \<Longrightarrow> split_on sep x = [x]"
  by (induction x) auto

lemma split_on_append: "sep \<notin> set x \<Longrightarrow> split_on sep (x @ sep # rest) = x # split_on sep rest"
  by (induction x) auto

lemma split_on_join_Cons:
  "\<forall>p \<in> set (x # xs). sep \<notin> set p \<Longrightarrow> split_on sep (join [sep] (x # xs)) = x # xs"
proof (induction xs arbitrary: x)
  case Nil
  then show ?case by (simp add: split_on_no_sep)
next
  case (Cons y ys)
  then have "split_on sep (join [sep] (y # ys)) = y # ys" by simp
  moreover from Cons.prems have "sep \<notin> set x" by simp
  ultimately show ?case by (simp add: split_on_append)
qed

lemma split_on_join:
  "parts \<noteq> [] \<Longrightarrow> \<forall>p \<in> set parts. sep \<notin> set p \<Longrightarrow> split_on sep (join [sep] parts) = parts"
  by (cases parts) (simp_all add: split_on_join_Cons del: join.simps split_on.simps)

lemma digit_char_in: "d < 10 \<Longrightarrow> digit_char d \<in> set ''0123456789''"
proof -
  assume "d < 10"
  then have "d \<in> {0,1,2,3,4,5,6,7,8,9}" by auto
  then show ?thesis by (auto simp: digit_char_def)
qed

lemma digit_value_digit_char: "d < 10 \<Longrightarrow> digit_value (digit_char d) = d"
proof -
  assume "d < 10"
  then have "d \<in> {0,1,2,3,4,5,6,7,8,9}" by auto
  then show ?thesis by (auto simp: digit_char_def digit_value_def)
qed

lemma str_nat_digits: "set (str_nat n) \<subseteq> set ''0123456789''"
proof (induction n rule: str_nat.induct)
  case (1 n)
  show ?case
  proof (cases "n < 10")
    case True
    then show ?thesis using digit_char_in[of n] by (subst str_nat.simps) simp
  next
    case False
    have "n mod 10 < 10" by simp
    from digit_char_in[OF this] 1[OF False] False show ?thesis
      by (subst str_nat.simps) simp
  qed
qed

lemma nat_of_digits_snoc: "nat_of_digits (ds @ [c]) = 10 * nat_of_digits ds + digit_value c"
  by (simp add: nat_of_digits_def)

lemma nat_of_digits_str_nat: "nat_of_digits (str_nat n) = n"
proof (induction n rule: str_nat.induct)
  case (1 n)
  show ?case
  proof (cases "n < 10")
    case True
    then show ?thesis
      by (subst str_nat.simps) (simp add: nat_of_digits_def digit_value_digit_char)
  next
    case False
    with 1 have "nat_of_digits (str_nat (n div 10)) = n div 10" by simp
    with False show ?thesis
      by (subst str_nat.simps) (simp add: nat_of_digits_snoc digit_value_digit_char)
  qed
qed

lemma str_nat_no_semicolon: "CHR '';'' \<notin> set (str_nat n)"
  using str_nat_digits[of n] by auto

lemma str_int_nonneg: "0 \<le> i \<Longrightarrow> str_int i = str_nat (nat i)"
  by (simp add: str_int_def)

lemma strength_roundtrip:
  assumes "pattern \<noteq> []"
  shows "map (\<lambda>p. int (nat_of_digits p)) (split_on (CHR '';'') (pattern_request_strength pattern))
         = map (\<lambda>num. min (max 0 num) 20) (take 50 pattern)"
proof -
  let ?vals = "map (\<lambda>num. min (max 0 num) 20) (take 50 pattern)"
  let ?parts = "map str_int ?vals"
  have ne: "?parts \<noteq> []" using assms by simp
  have nonneg: "\<forall>v \<in> set ?vals. 0 \<le> v" by auto
  then have parts: "?parts = map (\<lambda>v. str_nat (nat v)) ?vals"
    by (simp add: str_int_nonneg)
  have "\<forall>p \<in> set ?parts. CHR '';'' \<notin> set p"
    unfolding parts using str_nat_no_semicolon by auto
  with ne have "split_on (CHR '';'') (join '';'' ?parts) = ?parts"
    by (rule split_on_join)
  then have "split_on (CHR '';'') (pattern_request_strength pattern) = ?parts"
    by (simp add: pattern_request_strength_def Let_def)
  moreover have "map (\<lambda>p. int (nat_of_digits p)) ?parts = ?vals"
    unfolding parts using nonneg by (simp add: nat_of_digits_str_nat o_def)
  ultimately show ?thesis by simp
qed

subsection \<open>Evaluations\<close>

lemma str_100: "str_int 100 = ''100''"
  by code_simp

lemma str_250: "str_int 250 = ''250''"
  by code_simp

lemma str_1000: "str_int 1000 = ''1000''"
  by code_simp

lemma strength_sample: "pattern_request_strength [1, 2, 3, 4, 5, 20] = ''1;2;3;4;5;20''"
  by code_simp

lemma convert_vibrate_rotate:
  "convert_actions_to_letters [Str ''Vibrate'', Str ''Rotate''] = ''v,r''"
  by code_simp

lemma convert_pump: "convert_actions_to_letters [Str ''Pump''] = ''p''"
  by code_simp

subsection \<open>The action letters and the pattern strings\<close>

lemma convert_loop_strings:
  "list_all (\<lambda>a. isinstance_str a \<and> str_value a \<noteq> []) actions \<Longrightarrow>
   convert_loop codes actions =
     join '','' (codes @ filter (\<lambda>l. l \<in> set valid_letters)
                         (map (\<lambda>a. [lower_char (hd (str_value a))]) actions))"
  by (induction actions arbitrary: codes) (simp_all add: Let_def)

lemma convert_loop_abort:
  "Str [] \<in> set actions \<or> NotStr \<in> set actions \<Longrightarrow> convert_loop codes actions = []"
  by (induction actions arbitrary: codes) (auto simp: Let_def)

lemma rule_ALL_in:
  "ALL_in actions \<Longrightarrow>
   pattern_request_rule (Some actions) interval
     = ''V:1;F:;S:'' @ str_int (min (max interval 100) 1000) @ ''#''"
  by (simp add: pattern_request_rule_def Let_def)

text \<open>
  C4. For a list of non-empty strings, the encoding is the comma-joined list of the
  lowercased first letters that are among v, r, p, t, f, s, d;
  \<open>["Vibrate", "Rotate"]\<close> gives \<open>v,r\<close>; a list that contains an empty string or
  an entry that is not a string gives the empty string. When the actions contain
  \<open>All\<close>, the rule built by \<open>pattern_request\<close> has an empty feature field; for the
  interval 250, \<open>["Pump"]\<close> gives \<open>V:1;F:p;S:250#\<close> and \<open>["All"]\<close> (as a string, as
  the enum member, or by default) gives \<open>V:1;F:;S:250#\<close>.
\<close>

theorem convert_actions_to_letters_spec:
  "(list_all (\<lambda>a. isinstance_str a \<and> str_value a \<noteq> []) actions \<longrightarrow>
      convert_actions_to_letters actions =
        join '','' (filter (\<lambda>l. l \<in> set valid_letters)
                          (map (\<lambda>a. [lower_char (hd (str_value a))]) actions)))
   \<and> valid_letters = [''v'', ''r'', ''p'', ''t'', ''f'', ''s'', ''d'']
   \<and> convert_actions_to_letters [Str ''Vibrate'', Str ''Rotate''] = ''v,r''
   \<and> (Str [] \<in> set actions \<or> NotStr \<in> set actions \<longrightarrow> convert_actions_to_letters actions = [])
   \<and> (ALL_in actions \<longrightarrow>
        pattern_request_rule (Some actions) interval
          = ''V:1;F:;S:'' @ str_int (min (max interval 100) 1000) @ ''#'')
   \<and> pattern_request_rule (Some [Str ''Pump'']) 250 = ''V:1;F:p;S:250#''
   \<and> pattern_request_rule (Some [Str ''All'']) 250 = ''V:1;F:;S:250#''
   \<and> pattern_request_rule (Some [Member ALL']) 250 = ''V:1;F:;S:250#''
   \<and> pattern_request_rule None 250 = ''V:1;F:;S:250#''"
proof -
  have a: "list_all (\<lambda>a. isinstance_str a \<and> str_value a \<noteq> []) actions \<longrightarrow>
      convert_actions_to_letters actions =
        join '','' (filter (\<lambda>l. l \<in> set valid_letters)
                          (map (\<lambda>a. [lower_char (hd (str_value a))]) actions))"
    using convert_loop_strings[of actions "[]"] by (simp add: convert_actions_to_letters_def)
  have b: "Str [] \<in> set actions \<or> NotStr \<in> set actions \<longrightarrow> convert_actions_to_letters actions = []"
    using convert_loop_abort[of actions "[]"] by (simp add: convert_actions_to_letters_def)
  have c: "ALL_in actions \<longrightarrow>
        pattern_request_rule (Some actions) interval
          = ''V:1;F:;S:'' @ str_int (min (max interval 100) 1000) @ ''#''"
    by (simp add: rule_ALL_in)
  have d: "pattern_request_rule (Some [Str ''Pump'']) 250 = ''V:1;F:p;S:250#''"
    by (simp add: pattern_request_rule_def Let_def ALL_in_def convert_pump str_250)
  have e: "pattern_request_rule (Some [Str ''All'']) 250 = ''V:1;F:;S:250#''"
    "pattern_request_rule (Some [Member ALL']) 250 = ''V:1;F:;S:250#''"
    "pattern_request_rule None 250 = ''V:1;F:;S:250#''"
    by (simp_all add: pattern_request_rule_def Let_def ALL_in_def str_250)
  show ?thesis
    using a b c d e by (simp only: valid_letters_def convert_vibrate_rotate simp_thms)
qed

theorem convert_actions_to_letters_spec_witness:
  "convert_actions_to_letters [Str ''Thrusting'', Member FINGERING, Str ''All'', Str ''depth'', Str ''x'']
     = ''t,f,d''
   \<and> convert_actions_to_letters [Str ''Vibrate'', Str [], Str ''Rotate''] = []
   \<and> convert_actions_to_letters [Str ''Vibrate'', NotStr] = []
   \<and> pattern_request_rule (Some [Str ''Vibrate'', Member ALL']) 50 = ''V:1;F:;S:100#''"
proof -
  have h1: "list_all (\<lambda>a. isinstance_str a \<and> str_value a \<noteq> [])
              [Str ''Thrusting'', Member FINGERING, Str ''All'', Str ''depth'', Str ''x'']"
    by simp
  have h2: "Str [] \<in> set [Str ''Vibrate'', Str [], Str ''Rotate'']
            \<or> NotStr \<in> set [Str ''Vibrate'', Str [], Str ''Rotate'']"
    by simp
  have h3: "Str [] \<in> set [Str ''Vibrate'', NotStr] \<or> NotStr \<in> set [Str ''Vibrate'', NotStr]"
    by simp
  have h4: "ALL_in [Str ''Vibrate'', Member ALL']"
    by (simp add: ALL_in_def)
  have f: "join '','' (filter (\<lambda>l. l \<in> set valid_letters)
             (map (\<lambda>a. [lower_char (hd (str_value a))])
                [Str ''Thrusting'', Member FINGERING, Str ''All'', Str ''depth'', Str ''x'']))
           = ''t,f,d''"
    by code_simp
  have s: "str_int (min (max 50 100) 1000) = ''100''"
    by (simp add: str_100)
  from convert_actions_to_letters_spec
         [of "[Str ''Thrusting'', Member FINGERING, Str ''All'', Str ''depth'', Str ''x'']",
          THEN conjunct1, rule_format, OF h1]
       convert_actions_to_letters_spec
         [of "[Str ''Vibrate'', Str [], Str ''Rotate'']",
          THEN conjunct2, THEN conjunct2, THEN conjunct2, THEN conjunct1, rule_format, OF h2]
       convert_actions_to_letters_spec
         [of "[Str ''Vibrate'', NotStr]",
          THEN conjunct2, THEN conjunct2, THEN conjunct2, THEN conjunct1, rule_format, OF h3]
       convert_actions_to_letters_spec
         [of "[Str ''Vibrate'', Member ALL']" 50,
          THEN conjunct2, THEN conjunct2, THEN conjunct2, THEN conjunct2, THEN conjunct1,
          rule_format, OF h4]
  show ?thesis
    by (simp only: f s append.simps simp_thms)
qed

text \<open>
  C3. The strength string that \<open>pattern_request\<close> builds is the semicolon-joined decimal
  text of the first 50 elements of the pattern, each clamped to 0..20: split at the
  semicolons and read back, it gives exactly those values (at most 50 of them, each between
  0 and 20). The rule string is \<open>V:1;F:\<close>, the feature letters (none when the actions
  contain \<open>All\<close>), \<open>;S:\<close>, the decimal text of \<open>min(max(interval,100),1000)\<close>,
  and \<open>#\<close>. Both strings are the \<open>strength\<close> and \<open>rule\<close> fields of the payload sent.
\<close>

theorem pattern_request_strings:
  "pattern_request_strength pattern
     = join '';'' (map (\<lambda>num. str_int (min (max 0 num) 20)) (take 50 pattern))
   \<and> (pattern \<noteq> [] \<longrightarrow>
        map (\<lambda>p. int (nat_of_digits p)) (split_on (CHR '';'') (pattern_request_strength pattern))
          = map (\<lambda>num. min (max 0 num) 20) (take 50 pattern))
   \<and> list_all (\<lambda>v. 0 \<le> v \<and> v \<le> 20) (map (\<lambda>num. min (max 0 num) 20) (take 50 pattern))
   \<and> length (take 50 pattern) = min 50 (length pattern)
   \<and> pattern_request_rule actions interval
       = ''V:1;F:''
         @ (if ALL_in (case actions of None \<Rightarrow> [Member ALL'] | Some a \<Rightarrow> a) then []
            else convert_actions_to_letters (case actions of None \<Rightarrow> [Member ALL'] | Some a \<Rightarrow> a))
         @ '';S:'' @ str_int (min (max interval 100) 1000) @ ''#''
   \<and> 100 \<le> min (max interval 100) 1000 \<and> min (max interval 100) 1000 \<le> 1000
   \<and> payload_of (PatternRequest pattern actions interval time toy_id)
       = pattern_request_raw_payload (pattern_request_strength pattern)
           (pattern_request_rule actions interval) time toy_id
   \<and> map_of (payload_of (PatternRequest pattern actions interval time toy_id)) ''strength''
       = Some (JStr (pattern_request_strength pattern))
   \<and> map_of (payload_of (PatternRequest pattern actions interval time toy_id)) ''rule''
       = Some (JStr (pattern_request_rule actions interval))"
proof -
  have a: "pattern_request_strength pattern
     = join '';'' (map (\<lambda>num. str_int (min (max 0 num) 20)) (take 50 pattern))"
    by (simp add: pattern_request_strength_def Let_def o_def)
  have b: "pattern \<noteq> [] \<longrightarrow>
        map (\<lambda>p. int (nat_of_digits p)) (split_on (CHR '';'') (pattern_request_strength pattern))
          = map (\<lambda>num. min (max 0 num) 20) (take 50 pattern)"
    using strength_roundtrip by blast
  have c: "list_all (\<lambda>v. 0 \<le> v \<and> v \<le> 20) (map (\<lambda>num. min (max 0 num) 20) (take 50 pattern))"
    by (simp add: list_all_iff)
  have d: "pattern_request_rule actions interval
       = ''V:1;F:''
         @ (if ALL_in (case actions of None \<Rightarrow> [Member ALL'] | Some a \<Rightarrow> a) then []
            else convert_actions_to_letters (case actions of None \<Rightarrow> [Member ALL'] | Some a \<Rightarrow> a))
         @ '';S:'' @ str_int (min (max interval 100) 1000) @ ''#''"
    by (simp add: pattern_request_rule_def Let_def)
  have e: "map_of (payload_of (PatternRequest pattern actions interval time toy_id)) ''strength''
       = Some (JStr (pattern_request_strength pattern))"
    "map_of (payload_of (PatternRequest pattern actions interval time toy_id)) ''rule''
       = Some (JStr (pattern_request_rule actions interval))"
    by (simp_all add: pattern_request_raw_payload_def Let_def split: option.splits)
  have f: "payload_of (PatternRequest pattern actions interval time toy_id)
       = pattern_request_raw_payload (pattern_request_strength pattern)
           (pattern_request_rule actions interval) time toy_id"
    by simp
  have g: "length (take 50 pattern) = min 50 (length pattern)"
    by (simp add: min.commute)
  have h: "100 \<le> min (max interval 100) 1000 \<and> min (max interval 100) 1000 \<le> 1000"
    by simp
  from a b c d e f g h show ?thesis
    by (intro conjI) simp_all
qed

theorem pattern_request_strings_witness:
  "map (\<lambda>p. int (nat_of_digits p))
       (split_on (CHR '';'') (pattern_request_strength ([- 5, 7, 30] @ replicate 60 3)))
     = [0, 7, 20] @ replicate 47 3
   \<and> pattern_request_rule (Some [Str ''Pump'']) 5000 = ''V:1;F:p;S:1000#''"
proof -
  have ne: "[- 5, 7, 30] @ replicate 60 (3::int) \<noteq> []"
    by simp
  have v: "map (\<lambda>num. min (max 0 num) 20) (take 50 ([- 5, 7, 30] @ replicate 60 (3::int)))
             = [0, 7, 20] @ replicate 47 3"
    by simp
  have s: "str_int (min (max 5000 100) 1000) = ''1000''"
    by (simp add: str_1000)
  have n: "\<not> ALL_in [Str ''Pump'']"
    by (simp add: ALL_in_def)
  have A: "map (\<lambda>p. int (nat_of_digits p))
       (split_on (CHR '';'') (pattern_request_strength ([- 5, 7, 30] @ replicate 60 3)))
     = [0, 7, 20] @ replicate 47 3"
    using pattern_request_strings[of "[- 5, 7, 30] @ replicate 60 3",
         THEN conjunct2, THEN conjunct1, rule_format, OF ne]
    unfolding v .
  have B: "pattern_request_rule (Some [Str ''Pump'']) 5000 = ''V:1;F:p;S:1000#''"
    using pattern_request_strings[of _ "Some [Str ''Pump'']" 5000,
         THEN conjunct2, THEN conjunct2, THEN conjunct2, THEN conjunct2, THEN conjunct1]
    by (simp add: str_1000 n convert_pump)
  from A B show ?thesis
    by (rule conjI)
qed

text \<open>
  C5. For every duration and target, \<open>pattern_request\<close> with the pattern
  \<open>[1, 2, 3, 4, 5, 20]\<close>, the default interval 100 and the default actions sends the
  payload that \<open>pattern_request_raw("1;2;3;4;5;20", "V:1;F:;S:100#", time, toy_id)\<close>
  sends, and the two calls behave alike.
\<close>

theorem pattern_request_roundtrip:
  "pattern_request loads post self [1, 2, 3, 4, 5, 20] None 100 time toy_id
     = pattern_request_raw loads post self ''1;2;3;4;5;20'' ''V:1;F:;S:100#'' time toy_id
   \<and> payload_of (PatternRequest [1, 2, 3, 4, 5, 20] None 100 time toy_id)
     = payload_of (PatternRequestRaw ''1;2;3;4;5;20'' ''V:1;F:;S:100#'' time toy_id)
   \<and> last_command (snd (snd
         (pattern_request loads post self [1, 2, 3, 4, 5, 20] None 100 time toy_id)))
     = Some (pattern_request_raw_payload ''1;2;3;4;5;20'' ''V:1;F:;S:100#'' time toy_id)"
proof -
  have r: "pattern_request_rule None 100 = ''V:1;F:;S:100#''"
    by (simp add: pattern_request_rule_def Let_def ALL_in_def str_100)
  show ?thesis
    by (simp add: pattern_request_def pattern_request_raw_def strength_sample r
          last_command_send_command)
qed

theorem pattern_request_roundtrip_witness:
  "last_command (snd (snd
      (pattern_request json_loads (\<lambda>req. Raised (Timeout ''timed out''))
         (init ''My Cool App'' ''10.0.0.69'' 20010 30010 False)
         [1, 2, 3, 4, 5, 20] None 100 5 (Some ''f0a1''))))
     = Some [(''command'', JStr ''Pattern''), (''rule'', JStr ''V:1;F:;S:100#''),
             (''strength'', JStr ''1;2;3;4;5;20''), (''timeSec'', JInt 5), (''apiVer'', JInt 2),
             (''toy'', JStr ''f0a1'')]"
  using pattern_request_roundtrip
          [of json_loads "\<lambda>req. Raised (Timeout ''timed out'')"
              "init ''My Cool App'' ''10.0.0.69'' 20010 30010 False" 5 "Some ''f0a1''",
           THEN conjunct2, THEN conjunct2]
  by (simp add: pattern_request_raw_payload_def)

subsection \<open>The function payload\<close>

text \<open>
  C7, as the code has it. The payload of \<open>function_request\<close> is the command
  \<open>Function\<close>, the comma-joined \<open>action:value\<close> string of the clamped actions, the
  duration and the protocol version 1, followed by exactly the optional fields that the
  caller supplied: the loop-on and loop-off times (each at least 1), the target, and the
  stop-previous flag as the integer 1 or 0. A field that the caller omitted has no key in
  the payload.
\<close>

theorem function_request_payload_shape:
  "function_request_payload actions time loop_on_time loop_off_time toy_id stop_last =
     [(''command'', JStr ''Function''),
      (''action'', JStr (join '','' (map (\<lambda>item. fst item @ '':'' @ str_int (snd item))
                                       (function_clamp_range actions)))),
      (''timeSec'', JInt time),
      (''apiVer'', JInt 1)]
     @ (case loop_on_time of Some t \<Rightarrow> [(''loopRunningSec'', JInt (max t 1))] | None \<Rightarrow> [])
     @ (case loop_off_time of Some t \<Rightarrow> [(''loopPauseSec'', JInt (max t 1))] | None \<Rightarrow> [])
     @ (case toy_id of Some t \<Rightarrow> [(''toy'', JStr t)] | None \<Rightarrow> [])
     @ (case stop_last of Some b \<Rightarrow> [(''stopPrevious'', JInt (if b then 1 else 0))] | None \<Rightarrow> [])
   \<and> function_request loads post self actions time loop_on_time loop_off_time toy_id stop_last
       = send_command loads post self
           (function_request_payload actions time loop_on_time loop_off_time toy_id stop_last) 10"
  by (cases loop_on_time; cases loop_off_time; cases toy_id; cases stop_last)
     (simp_all add: function_request_payload_def function_request_def Let_def)

theorem function_request_payload_shape_witness:
  "function_request_payload [(''Vibrate'', 25), (''Pump'', 2)] 5 (Some 0) None (Some ''f0a1'') (Some False)
     = [(''command'', JStr ''Function''), (''action'', JStr ''Vibrate:20,Pump:2''),
        (''timeSec'', JInt 5), (''apiVer'', JInt 1), (''loopRunningSec'', JInt 1),
        (''toy'', JStr ''f0a1''), (''stopPrevious'', JInt 0)]"
proof -
  have a: "join '','' (map (\<lambda>item. fst item @ '':'' @ str_int (snd item))
                        (function_clamp_range [(''Vibrate'', 25), (''Pump'', 2)]))
           = ''Vibrate:20,Pump:2''"
    by code_simp
  from function_request_payload_shape
         [of "[(''Vibrate'', 25), (''Pump'', 2)]" 5 "Some 0" None "Some ''f0a1''" "Some False",
          THEN conjunct1, unfolded a]
  show ?thesis
    by simp
qed

text \<open>
  The claim C7 as worded has the stop-previous flag encoded as true/false; the payload
  carries the integer 1, which JSON writes \<open>1\<close>, not \<open>true\<close>.
\<close>

theorem stop_previous_counterexample:
  "map_of (function_request_payload [(''Vibrate'', 5)] 0 None None None (Some True)) ''stopPrevious''
     \<noteq> Some (JBool True)"
  by (simp add: function_request_payload_def Let_def)

section \<open>Properties of the response normalisation\<close>

lemma foldl_update_fresh:
  "distinct (map fst kvs) \<Longrightarrow> fst ` set acc \<inter> fst ` set kvs = {} \<Longrightarrow>
   foldl (\<lambda>d kv. AList.update (fst kv) (snd kv) d) acc kvs = acc @ kvs"
proof (induction kvs arbitrary: acc)
  case Nil
  then show ?case by simp
next
  case (Cons kv kvs)
  from Cons.prems(2) have "fst kv \<notin> fst ` set acc" by auto
  then have u: "AList.update (fst kv) (snd kv) acc = acc @ [kv]"
    by (simp add: update_fresh)
  from Cons.prems have "fst ` set (acc @ [kv]) \<inter> fst ` set kvs = {}" by auto
  moreover from Cons.prems(1) have "distinct (map fst kvs)" by simp
  ultimately have "foldl (\<lambda>d kv. AList.update (fst kv) (snd kv) d) (acc @ [kv]) kvs = (acc @ [kv]) @ kvs"
    by (rule Cons.IH[rotated])
  with u show ?case by simp
qed

lemma dict_of_items_distinct: "distinct (map fst kvs) \<Longrightarrow> dict_of_items kvs = kvs"
  using foldl_update_fresh[of kvs "[]"] by (simp add: dict_of_items_def)

lemma json_loads_a1: \<open>json_loads ''{"a":1}'' = Some (JObj [(''a'', JInt 1)])\<close>
  by code_simp

lemma json_loads_plain: \<open>json_loads ''plain'' = None\<close>
  by code_simp

lemma json_loads_list1: \<open>json_loads ''[1]'' = Some (JArr [JInt 1])\<close>
  by code_simp

lemma json_loads_nested_list:
  \<open>json_loads ''{"x": "[1]"}'' = Some (JObj [(''x'', JStr ''[1]'')])\<close>
  by code_simp

lemma json_loads_nested_object:
  \<open>json_loads (''{"x": "{'' @ [CHR 0x5C] @ ''"a'' @ [CHR 0x5C] @ ''":1}"}'')
     = Some (JObj [(''x'', JStr ''{"a":1}'')])\<close>
  by code_simp

text \<open>
  C6, as the code has it. \<open>_parse_json\<close> walks the decoded body through its dicts
  (value by value, keys and their order kept) and its lists (element by element). A
  string it meets is handed to the decoder once: when it decodes, the decoded value
  takes its place as it is, otherwise the string stays; numbers, booleans and
  \<open>null\<close> stay. So a field holding the string \<open>{"a":1}\<close> becomes the structure
  \<open>{"a": 1}\<close>, also inside a list.
\<close>

theorem parse_json_walk:
  \<open>parse_json loads (JStr s) = (case loads s of Some v \<Rightarrow> v | None \<Rightarrow> JStr s)
   \<and> (distinct (map fst kvs) \<longrightarrow>
        parse_json loads (JObj kvs) = JObj (map (\<lambda>kv. (fst kv, parse_json loads (snd kv))) kvs))
   \<and> parse_json loads (JArr xs) = JArr (map (parse_json loads) xs)
   \<and> parse_json loads JNull = JNull
   \<and> parse_json loads (JBool b) = JBool b
   \<and> parse_json loads (JInt i) = JInt i
   \<and> parse_json loads (JFloat f) = JFloat f
   \<and> parse_json json_loads (JObj [(''field'', JStr ''{"a":1}'')])
       = JObj [(''field'', JObj [(''a'', JInt 1)])]
   \<and> parse_json json_loads (JArr [JStr ''{"a":1}'', JStr ''plain''])
       = JArr [JObj [(''a'', JInt 1)], JStr ''plain'']\<close>
proof -
  have obj: "parse_json loads (JObj kvs) = JObj (map (\<lambda>kv. (fst kv, parse_json loads (snd kv))) kvs)"
    if "distinct (map fst kvs)"
  proof -
    let ?items = "map (\<lambda>kv. (fst kv, parse_json loads (snd kv))) kvs"
    have "map fst ?items = map fst kvs"
      by (simp add: o_def)
    with that have "distinct (map fst ?items)"
      by (simp only:)
    then have "dict_of_items ?items = ?items"
      by (rule dict_of_items_distinct)
    moreover have "parse_json loads (JObj kvs) = JObj (dict_of_items ?items)"
      by (simp add: case_prod_unfold)
    ultimately show ?thesis
      by (simp only:)
  qed
  have ex: \<open>parse_json json_loads (JObj [(''field'', JStr ''{"a":1}'')])
       = JObj [(''field'', JObj [(''a'', JInt 1)])]\<close>
    \<open>parse_json json_loads (JArr [JStr ''{"a":1}'', JStr ''plain''])
       = JArr [JObj [(''a'', JInt 1)], JStr ''plain'']\<close>
    by (simp_all add: json_loads_a1 json_loads_plain dict_of_items_def)
  from obj ex show ?thesis by simp
qed

theorem parse_json_walk_witness:
  \<open>parse_json json_loads
     (JObj [(''code'', JInt 200), (''data'', JStr ''{"a":1}''),
            (''names'', JArr [JStr ''plain'', JStr ''[1]''])])
   = JObj [(''code'', JInt 200), (''data'', JObj [(''a'', JInt 1)]),
           (''names'', JArr [JStr ''plain'', JArr [JInt 1]])]\<close>
proof -
  have d: \<open>distinct (map fst [(''code'', JInt 200), (''data'', JStr ''{"a":1}''),
            (''names'', JArr [JStr ''plain'', JStr ''[1]''])])\<close>
    by simp
  from parse_json_walk[where loads = json_loads,
         THEN conjunct2, THEN conjunct1, rule_format, OF d]
  show ?thesis
    by (simp add: json_loads_a1 json_loads_plain json_loads_list1)
qed

text \<open>
  The claim C6 as worded also has the strings inside a structure that came out of a
  string decoded again. They are not: a field holding the text \<open>{"x": "[1]"}\<close>
  becomes \<open>{"x": "[1]"}\<close> with \<open>[1]\<close> still a string, although that string is
  JSON, where the normalisation as worded gives \<open>{"x": [1]}\<close>; likewise for an inner
  \<open>{"a":1}\<close>.
\<close>

theorem parse_json_nested_counterexample:
  \<open>parse_json json_loads (JObj [(''field'', JStr ''{"x": "[1]"}'')])
     = JObj [(''field'', JObj [(''x'', JStr ''[1]'')])]
   \<and> normalize_spec 32 json_loads (JObj [(''field'', JStr ''{"x": "[1]"}'')])
     = JObj [(''field'', JObj [(''x'', JArr [JInt 1])])]
   \<and> parse_json json_loads (JObj [(''field'', JStr ''{"x": "[1]"}'')])
     \<noteq> normalize_spec 32 json_loads (JObj [(''field'', JStr ''{"x": "[1]"}'')])
   \<and> parse_json json_loads
       (JObj [(''field'', JStr (''{"x": "{'' @ [CHR 0x5C] @ ''"a'' @ [CHR 0x5C] @ ''":1}"}''))])
     = JObj [(''field'', JObj [(''x'', JStr ''{"a":1}'')])]
   \<and> json_loads ''{"a":1}'' = Some (JObj [(''a'', JInt 1)])\<close>
proof -
  have a: \<open>parse_json json_loads (JObj [(''field'', JStr ''{"x": "[1]"}'')])
     = JObj [(''field'', JObj [(''x'', JStr ''[1]'')])]\<close>
    by (simp add: json_loads_nested_list dict_of_items_def)
  have b: \<open>normalize_spec 32 json_loads (JObj [(''field'', JStr ''{"x": "[1]"}'')])
     = JObj [(''field'', JObj [(''x'', JArr [JInt 1])])]\<close>
    by code_simp
  have c: \<open>parse_json json_loads
       (JObj [(''field'', JStr (''{"x": "{'' @ [CHR 0x5C] @ ''"a'' @ [CHR 0x5C] @ ''":1}"}''))])
     = JObj [(''field'', JObj [(''x'', JStr ''{"a":1}'')])]\<close>
    using json_loads_nested_object by (simp add: dict_of_items_def)
  show ?thesis
    unfolding a b using c json_loads_a1 by simp
qed

end
